theory Spec2Isabelle
  imports Main "HOL-Library.Char_ord" "HOL-Library.List_Lexorder" "HOL-Library.Product_Lexorder"
begin

section \<open>Task and container selection of the ECS shell utility\<close>

text \<open>
  The development embeds \<^verbatim>\<open>find_task\<close> and \<^verbatim>\<open>find_container_name\<close> of
  \<^verbatim>\<open>src/aws/ecs-shell.py\<close> (the specification calls them \<^verbatim>\<open>select_task\<close> and
  \<^verbatim>\<open>select_container\<close>), together with the parts of the Python runtime they call:
  string splitting, joining and replacing, sorting, \<^verbatim>\<open>max\<close> with a key, and the
  \<^verbatim>\<open>datetime\<close> class with its comparison and its ISO parser.
\<close>

subsection \<open>Exceptions\<close>

text \<open>
  Both functions raise \<^verbatim>\<open>ValueError\<close> with a message; comparing an offset-naive with an
  offset-aware \<^verbatim>\<open>datetime\<close> raises \<^verbatim>\<open>TypeError\<close>. The kinds \<^verbatim>\<open>NotFound\<close> and
  \<^verbatim>\<open>Ambiguous\<close> of the specification are all \<^verbatim>\<open>ValueError\<close> in the code and differ
  by their message only.
\<close>

datatype error = ValueError string | TypeError string

subsection \<open>Strings\<close>

definition apostrophe :: char where
  "apostrophe = CHR 0x27"

text \<open>\<^verbatim>\<open>s.split(sep)\<close> for a one-character separator: never the empty list.\<close>

fun py_split :: "char \<Rightarrow> string \<Rightarrow> string list" where
  "py_split sep [] = [[]]"
| "py_split sep (c # cs) =
     (if c = sep then [] # py_split sep cs
      else (case py_split sep cs of
              [] \<Rightarrow> [[c]]
            | w # ws \<Rightarrow> (c # w) # ws))"

text \<open>\<^verbatim>\<open>sep.join(xs)\<close>.\<close>

fun py_join :: "string \<Rightarrow> string list \<Rightarrow> string" where
  "py_join sep [] = []"
| "py_join sep [x] = x"
| "py_join sep (x # y # ys) = x @ sep @ py_join sep (y # ys)"

text \<open>\<^verbatim>\<open>s.replace(c, new)\<close> for a one-character pattern: every occurrence is replaced.\<close>

definition py_replace :: "char \<Rightarrow> string \<Rightarrow> string \<Rightarrow> string" where
  "py_replace c new s = concat (map (\<lambda>x. if x = c then new else [x]) s)"

text \<open>\<^verbatim>\<open>s.endswith(c)\<close> for a one-character suffix.\<close>

definition endswith :: "string \<Rightarrow> char \<Rightarrow> bool" where
  "endswith s c = (s \<noteq> [] \<and> last s = c)"

text \<open>Truthiness of an \<^verbatim>\<open>Optional[str]\<close>: \<^verbatim>\<open>None\<close> and the empty string are falsy.\<close>

fun truthy :: "string option \<Rightarrow> bool" where
  "truthy None = False"
| "truthy (Some s) = (s \<noteq> [])"

subsection \<open>The datetime class\<close>

text \<open>
  A \<^verbatim>\<open>datetime\<close> has the seven calendar fields and a \<^verbatim>\<open>tzinfo\<close>. The model takes
  the \<^verbatim>\<open>tzinfo\<close> to be a fixed offset from UTC, as the \<^verbatim>\<open>timezone\<close> objects of the ISO
  parser are, and keeps the offset in microseconds; \<open>None\<close> is an offset-naive value.
  Zones whose offset varies with the date are outside the model.
\<close>

record datetime =
  year :: nat
  month :: nat
  day :: nat
  hour :: nat
  minute :: nat
  second :: nat
  microsecond :: nat
  utcoffset :: "int option"

text \<open>\<^verbatim>\<open>datetime.min = datetime(1, 1, 1)\<close>: offset-naive.\<close>

definition datetime_min :: datetime where
  "datetime_min = \<lparr>year = 1, month = 1, day = 1, hour = 0, minute = 0, second = 0,
     microsecond = 0, utcoffset = None\<rparr>"

definition is_leap :: "nat \<Rightarrow> bool" where
  "is_leap y = (y mod 4 = 0 \<and> (y mod 100 \<noteq> 0 \<or> y mod 400 = 0))"

definition days_before_year :: "nat \<Rightarrow> nat" where
  "days_before_year y = (y - 1) * 365 + (y - 1) div 4 - (y - 1) div 100 + (y - 1) div 400"

definition days_in_month :: "nat \<Rightarrow> nat \<Rightarrow> nat" where
  "days_in_month y m =
     (if m = 2 \<and> is_leap y then 29
      else [0, 31, 28, 31, 30, 31, 30, 31, 31, 30, 31, 30, 31] ! m)"

definition days_before_month :: "nat \<Rightarrow> nat \<Rightarrow> nat" where
  "days_before_month y m =
     [0, 0, 31, 59, 90, 120, 151, 181, 212, 243, 273, 304, 334] ! m
       + (if m > 2 \<and> is_leap y then 1 else 0)"

definition ymd2ord :: "nat \<Rightarrow> nat \<Rightarrow> nat \<Rightarrow> nat" where
  "ymd2ord y m d = days_before_year y + days_before_month y m + d"

text \<open>
  The wall-clock reading of a value in microseconds, counted from the start of ordinal
  day 0; \<^verbatim>\<open>self - other\<close> on two offset-aware values is the difference of the readings
  with each offset taken off.
\<close>

definition wall_us :: "datetime \<Rightarrow> int" where
  "wall_us d =
     ((int (ymd2ord (year d) (month d) (day d)) * 24 + int (hour d)) * 60 + int (minute d)) * 60000000
       + int (second d) * 1000000 + int (microsecond d)"

definition field_tuple :: "datetime \<Rightarrow> nat \<times> nat \<times> nat \<times> nat \<times> nat \<times> nat \<times> nat" where
  "field_tuple d = (year d, month d, day d, hour d, minute d, second d, microsecond d)"

text \<open>A value is offset-aware when it has a UTC offset, offset-naive otherwise.\<close>

definition is_aware :: "datetime \<Rightarrow> bool" where
  "is_aware d = (utcoffset d \<noteq> None)"

definition cannot_compare :: string where
  "cannot_compare = ''can'' @ [apostrophe] @ ''t compare offset-naive and offset-aware datetimes''"

text \<open>
  \<^verbatim>\<open>datetime._cmp\<close>: equal offsets (both absent included) compare the field tuples; one
  offset absent and the other present raises \<^verbatim>\<open>TypeError\<close>; two different offsets compare
  the instants.
\<close>

definition datetime_cmp :: "datetime \<Rightarrow> datetime \<Rightarrow> error + int" where
  "datetime_cmp a b =
     (if utcoffset a = utcoffset b then
        Inr (if field_tuple a = field_tuple b then 0 else if field_tuple a > field_tuple b then 1 else - 1)
      else (case (utcoffset a, utcoffset b) of
              (Some oa, Some ob) \<Rightarrow>
                (let diff = (wall_us a - oa) - (wall_us b - ob)
                 in Inr (if diff < 0 then - 1 else if diff \<noteq> 0 then 1 else 0))
            | _ \<Rightarrow> Inl (TypeError cannot_compare)))"

text \<open>\<^verbatim>\<open>a > b\<close> on two datetimes.\<close>

definition datetime_gt :: "datetime \<Rightarrow> datetime \<Rightarrow> error + bool" where
  "datetime_gt a b = (case datetime_cmp a b of Inl e \<Rightarrow> Inl e | Inr c \<Rightarrow> Inr (c > 0))"

subsection \<open>The ISO parser\<close>

text \<open>
  \<^verbatim>\<open>datetime.fromisoformat\<close> belongs to the standard library. The model covers the
  strings of the shape \<^verbatim>\<open>YYYY-MM-DD\<close>, optionally followed by one separator character
  (any character), \<^verbatim>\<open>hh:mm:ss\<close>, an optional fraction (\<^verbatim>\<open>.\<close> or \<^verbatim>\<open>,\<close> and one to six
  digits) and an optional offset (\<^verbatim>\<open>Z\<close>, or a sign and \<^verbatim>\<open>hh:mm\<close>), with the range
  checks of the constructor. \<open>None\<close> is \<^verbatim>\<open>ValueError\<close>. The library also accepts dates
  without dashes, week dates, times shortened to \<^verbatim>\<open>hh\<close> or \<^verbatim>\<open>hh:mm\<close> or written without
  colons, longer fractions and offsets with seconds; the model answers \<open>None\<close> on
  them, and no statement below is about such a string.
\<close>

definition is_ascii_digit :: "char \<Rightarrow> bool" where
  "is_ascii_digit c = (c \<in> set ''0123456789'')"

definition digit_val :: "char \<Rightarrow> nat" where
  "digit_val c = of_char c - 48"

definition parse_digits :: "nat \<Rightarrow> string \<Rightarrow> nat option" where
  "parse_digits n s =
     (if length s = n \<and> n > 0 \<and> list_all is_ascii_digit s
      then Some (foldl (\<lambda>v c. 10 * v + digit_val c) 0 s) else None)"

definition parse_isoformat_date :: "string \<Rightarrow> (nat \<times> nat \<times> nat) option" where
  "parse_isoformat_date dstr =
     (if length dstr = 10 \<and> dstr ! 4 = CHR ''-'' \<and> dstr ! 7 = CHR ''-'' then
        (case (parse_digits 4 (take 4 dstr), parse_digits 2 (take 2 (drop 5 dstr)),
               parse_digits 2 (drop 8 dstr)) of
           (Some y, Some m, Some d) \<Rightarrow>
             (if 1 \<le> y \<and> y \<le> 9999 \<and> 1 \<le> m \<and> m \<le> 12 \<and> 1 \<le> d \<and> d \<le> days_in_month y m
              then Some (y, m, d) else None)
         | _ \<Rightarrow> None)
      else None)"

text \<open>\<^verbatim>\<open>hh:mm:ss\<close> with an optional fraction.\<close>

definition parse_hh_mm_ss_ff :: "string \<Rightarrow> (nat \<times> nat \<times> nat \<times> nat) option" where
  "parse_hh_mm_ss_ff tstr =
     (if length tstr \<ge> 8 \<and> tstr ! 2 = CHR '':'' \<and> tstr ! 5 = CHR '':'' then
        (case (parse_digits 2 (take 2 tstr), parse_digits 2 (take 2 (drop 3 tstr)),
               parse_digits 2 (take 2 (drop 6 tstr))) of
           (Some h, Some mi, Some s) \<Rightarrow>
             (case drop 8 tstr of
                [] \<Rightarrow> Some (h, mi, s, 0)
              | c # frac \<Rightarrow>
                  (if (c = CHR ''.'' \<or> c = CHR '','') \<and> length frac \<le> 6 then
                     (case parse_digits (length frac) frac of
                        Some f \<Rightarrow> Some (h, mi, s, f * 10 ^ (6 - length frac))
                      | None \<Rightarrow> None)
                   else None))
         | _ \<Rightarrow> None)
      else None)"

text \<open>
  The position after the first \<^verbatim>\<open>-\<close>, else after the first \<^verbatim>\<open>+\<close>, else after the first
  \<^verbatim>\<open>Z\<close>; 0 when there is none.
\<close>

definition find1 :: "char \<Rightarrow> string \<Rightarrow> nat" where
  "find1 c s = (if c \<in> set s then length (takeWhile (\<lambda>x. x \<noteq> c) s) + 1 else 0)"

definition tz_pos :: "string \<Rightarrow> nat" where
  "tz_pos tstr =
     (if find1 CHR ''-'' tstr \<noteq> 0 then find1 CHR ''-'' tstr
      else if find1 CHR ''+'' tstr \<noteq> 0 then find1 CHR ''+'' tstr
      else find1 CHR ''Z'' tstr)"

text \<open>The time part: the four time fields and the offset in microseconds.\<close>

definition parse_isoformat_time :: "string \<Rightarrow> ((nat \<times> nat \<times> nat \<times> nat) \<times> int option) option" where
  "parse_isoformat_time tstr =
     (let p = tz_pos tstr;
          timestr = (if p > 0 then take (p - 1) tstr else tstr)
      in case parse_hh_mm_ss_ff timestr of
           None \<Rightarrow> None
         | Some (h, mi, s, f) \<Rightarrow>
             (if \<not> (h \<le> 23 \<and> mi \<le> 59 \<and> s \<le> 59) then None
              else if p = 0 then Some ((h, mi, s, f), None)
              else if p = length tstr \<and> last tstr = CHR ''Z'' then Some ((h, mi, s, f), Some 0)
              else (let tzstr = drop p tstr in
                    if length tzstr = 5 \<and> tzstr ! 2 = CHR '':'' then
                      (case (parse_digits 2 (take 2 tzstr), parse_digits 2 (drop 3 tzstr)) of
                         (Some th, Some tm) \<Rightarrow>
                           (let off = (int th * 60 + int tm) * 60000000;
                                sgn = (if tstr ! (p - 1) = CHR ''-'' then - 1 else 1)
                            in if off < 86400000000 then Some ((h, mi, s, f), Some (sgn * off))
                               else None)
                       | _ \<Rightarrow> None)
                    else None)))"

definition fromisoformat :: "string \<Rightarrow> datetime option" where
  "fromisoformat date_string =
     (case parse_isoformat_date (take 10 date_string) of
        None \<Rightarrow> None
      | Some (y, m, d) \<Rightarrow>
          (if length date_string = 10 then
             Some \<lparr>year = y, month = m, day = d, hour = 0, minute = 0, second = 0,
                   microsecond = 0, utcoffset = None\<rparr>
           else (case parse_isoformat_time (drop 11 date_string) of
                   None \<Rightarrow> None
                 | Some ((h, mi, s, f), tz) \<Rightarrow>
                     Some \<lparr>year = y, month = m, day = d, hour = h, minute = mi, second = s,
                           microsecond = f, utcoffset = tz\<rparr>)))"

subsection \<open>\<^verbatim>\<open>max\<close> with a key\<close>

text \<open>
  \<^verbatim>\<open>max(xs, key=f)\<close> keeps the first element as the running maximum and replaces it by
  a later element only when that element's key is strictly greater; a comparison that
  raises ends the call with that exception.
\<close>

fun max_loop :: "('a \<Rightarrow> datetime) \<Rightarrow> 'a \<Rightarrow> 'a list \<Rightarrow> error + 'a" where
  "max_loop key best [] = Inr best"
| "max_loop key best (x # xs) =
     (case datetime_gt (key x) (key best) of
        Inl e \<Rightarrow> Inl e
      | Inr b \<Rightarrow> max_loop key (if b then x else best) xs)"

definition py_max :: "('a \<Rightarrow> datetime) \<Rightarrow> 'a list \<Rightarrow> error + 'a" where
  "py_max key xs =
     (case xs of
        [] \<Rightarrow> Inl (ValueError ''max() arg is an empty sequence'')
      | x # rest \<Rightarrow> max_loop key x rest)"

subsection \<open>The ECS resources\<close>

text \<open>
  The dictionaries of the ECS API, with the keys the two functions read. A value stored
  under \<^verbatim>\<open>startedAt\<close> is a \<^verbatim>\<open>datetime\<close>, a string or something else; \<open>None\<close> is a
  missing key or the value \<^verbatim>\<open>None\<close>. A missing \<^verbatim>\<open>containers\<close> or
  \<^verbatim>\<open>containerDefinitions\<close> key reads as the empty list and a missing \<^verbatim>\<open>essential\<close>
  key as \<open>False\<close>, as the \<^verbatim>\<open>.get\<close> defaults say.
\<close>

datatype pyval = PyDatetime datetime | PyStr string | PyOther

record container =
  name :: string
  lastStatus :: string

record container_definition =
  cd_name :: string
  essential :: bool

record task =
  taskArn :: string
  taskDefinitionArn :: string
  startedAt :: "pyval option"
  containers :: "container list"

record task_definition =
  containerDefinitions :: "container_definition list"

subsection \<open>\<^verbatim>\<open>find_container_name\<close>\<close>

definition container_names :: "task \<Rightarrow> string set" where
  "container_names t = set (map name (containers t))"

definition essential_containers :: "task \<Rightarrow> task_definition \<Rightarrow> string set" where
  "essential_containers t td =
     set (map cd_name
            (filter (\<lambda>container_def. essential container_def
                                   \<and> cd_name container_def \<in> container_names t)
               (containerDefinitions td)))"

definition not_found_in_task :: "string \<Rightarrow> task \<Rightarrow> string" where
  "not_found_in_task specified t =
     ''Container '' @ [apostrophe] @ specified @ [apostrophe] @ '' not found in task. ''
       @ ''Available containers: '' @ py_join '', '' (sorted_list_of_set (container_names t))"

definition cannot_determine :: "task \<Rightarrow> string" where
  "cannot_determine t =
     ''Container name must be specified with -c because it cannot be ''
       @ ''automatically determined. Available containers: ''
       @ py_join '', '' (sorted_list_of_set (container_names t))"

definition find_container_name :: "task \<Rightarrow> task_definition \<Rightarrow> string option \<Rightarrow> error + string" where
  "find_container_name t task_definition specified_container =
     (if truthy specified_container then
        (if the specified_container \<notin> container_names t
         then Inl (ValueError (not_found_in_task (the specified_container) t))
         else Inr (the specified_container))
      else if length (containers t) = 0 then Inl (ValueError ''No containers found in task'')
      else if length (containers t) = 1 then Inr (name (containers t ! 0))
      else if card (essential_containers t task_definition) = 1
        then Inr (the_elem (essential_containers t task_definition))
      else Inl (ValueError (cannot_determine t)))"

subsection \<open>\<^verbatim>\<open>find_task\<close>\<close>

text \<open>\<^verbatim>\<open>task["taskArn"].split("/")[-1]\<close>\<close>

definition task_id_of :: "task \<Rightarrow> string" where
  "task_id_of t = last (py_split CHR ''/'' (taskArn t))"

definition task_not_found :: "string \<Rightarrow> task list \<Rightarrow> string" where
  "task_not_found task_id tasks =
     ''Task '' @ [apostrophe] @ task_id @ [apostrophe] @ '' not found. Available tasks: ''
       @ py_join '', '' (sort (map task_id_of tasks))"

definition get_start_time :: "task \<Rightarrow> datetime" where
  "get_start_time t =
     (case startedAt t of
        None \<Rightarrow> datetime_min
      | Some (PyDatetime started_at) \<Rightarrow> started_at
      | Some (PyStr started_at) \<Rightarrow>
          (case fromisoformat
                  (if endswith started_at CHR ''Z''
                   then py_replace CHR ''Z'' ''+00:00'' started_at else started_at) of
             Some d \<Rightarrow> d
           | None \<Rightarrow> datetime_min)
      | Some PyOther \<Rightarrow> datetime_min)"

definition find_task :: "task list \<Rightarrow> string option \<Rightarrow> error + task" where
  "find_task tasks task_id =
     (if tasks = [] then Inl (ValueError ''No running tasks found'')
      else if truthy task_id then
        (case find (\<lambda>t. task_id_of t = the task_id) tasks of
           Some t \<Rightarrow> Inr t
         | None \<Rightarrow> Inl (ValueError (task_not_found (the task_id) tasks)))
      else py_max get_start_time tasks)"

subsection \<open>Example inputs\<close>

definition task_A :: task where
  "task_A = \<lparr>taskArn = ''arn:aws:ecs:eu-west-1:111122223333:task/demo/A'',
     taskDefinitionArn = ''demo:1'', startedAt = None, containers = []\<rparr>"

definition task_B :: task where
  "task_B = \<lparr>taskArn = ''arn:aws:ecs:eu-west-1:111122223333:task/demo/B'',
     taskDefinitionArn = ''demo:1'', startedAt = Some (PyStr ''2024-01-01T00:00:00Z''),
     containers = []\<rparr>"

definition task_web :: task where
  "task_web = \<lparr>taskArn = ''arn:aws:ecs:eu-west-1:111122223333:task/demo/W'',
     taskDefinitionArn = ''demo:1'', startedAt = None,
     containers = [\<lparr>name = ''web'', lastStatus = ''RUNNING''\<rparr>]\<rparr>"

definition task_two :: task where
  "task_two = \<lparr>taskArn = ''arn:aws:ecs:eu-west-1:111122223333:task/demo/T'',
     taskDefinitionArn = ''demo:1'', startedAt = None,
     containers = [\<lparr>name = ''web'', lastStatus = ''RUNNING''\<rparr>,
                   \<lparr>name = ''sidecar'', lastStatus = ''RUNNING''\<rparr>]\<rparr>"

definition td_other :: task_definition where
  "td_other = \<lparr>containerDefinitions =
     [\<lparr>cd_name = ''web'', essential = False\<rparr>, \<lparr>cd_name = ''db'', essential = True\<rparr>]\<rparr>"

definition td_web :: task_definition where
  "td_web = \<lparr>containerDefinitions =
     [\<lparr>cd_name = ''web'', essential = True\<rparr>, \<lparr>cd_name = ''sidecar'', essential = False\<rparr>]\<rparr>"

definition td_both :: task_definition where
  "td_both = \<lparr>containerDefinitions =
     [\<lparr>cd_name = ''web'', essential = True\<rparr>, \<lparr>cd_name = ''sidecar'', essential = True\<rparr>]\<rparr>"

definition task_C :: task where
  "task_C = \<lparr>taskArn = ''arn:aws:ecs:eu-west-1:111122223333:task/demo/C'',
     taskDefinitionArn = ''demo:1'',
     startedAt = Some (PyDatetime \<lparr>year = 2024, month = 1, day = 1, hour = 0, minute = 0,
                                    second = 0, microsecond = 0, utcoffset = Some 0\<rparr>),
     containers = []\<rparr>"


subsection \<open>The normalization as the specification words it\<close>



section \<open>Properties\<close>

subsection \<open>Facts about the example inputs and the container sets\<close>

lemma card_container_names_le: "card (container_names t) \<le> length (containers t)"
  unfolding container_names_def using card_length [of "map name (containers t)"] by simp

lemma essential_containers_eq:
  "essential_containers t td
     = {n. n \<in> container_names t \<and> (\<exists>d \<in> set (containerDefinitions td). essential d \<and> cd_name d = n)}"
  by (auto simp: essential_containers_def)

lemma container_names_card_distinct:
  "distinct (map name (containers t)) \<Longrightarrow> card (container_names t) = length (containers t)"
  using distinct_card [of "map name (containers t)"] by (simp add: container_names_def)

lemma names_two: "container_names task_two = {''web'', ''sidecar''}"
  by (simp add: container_names_def task_two_def)

lemma sorted_names_two: "sorted_list_of_set (container_names task_two) = [''sidecar'', ''web'']"
  unfolding names_two by code_simp

text \<open>The identifier of a task is what follows the last \<^verbatim>\<open>/\<close> of its ARN.\<close>

lemma py_split_nonempty: "py_split sep s \<noteq> []"
  by (induction s) (auto split: list.splits)

lemma py_split_no_sep: "sep \<notin> set s \<Longrightarrow> py_split sep s = [s]"
  by (induction s) auto

lemma py_split_sep: "sep \<in> set s \<Longrightarrow> \<exists>w v vs. py_split sep s = w # v # vs"
proof (induction s)
  case Nil
  then show ?case by simp
next
  case (Cons c cs)
  show ?case
  proof (cases "c = sep")
    case True
    obtain v vs where "py_split sep cs = v # vs"
      using py_split_nonempty [of sep cs] by (cases "py_split sep cs") auto
    with True show ?thesis by simp
  next
    case False
    with Cons.prems have "sep \<in> set cs" by simp
    then obtain w v vs where "py_split sep cs = w # v # vs"
      using Cons.IH by blast
    with False show ?thesis by simp
  qed
qed

lemma last_py_split:
  "last (py_split sep s) = rev (takeWhile (\<lambda>c. c \<noteq> sep) (rev s))"
proof (induction s)
  case Nil
  then show ?case by simp
next
  case (Cons c cs)
  show ?case
  proof (cases "c = sep")
    case True
    then show ?thesis
      using Cons.IH py_split_nonempty [of sep cs] by (simp add: takeWhile_append)
  next
    case False
    show ?thesis
    proof (cases "sep \<in> set cs")
      case True
      then obtain w v vs where "py_split sep cs = w # v # vs"
        using py_split_sep by blast
      then show ?thesis
        using Cons.IH False True by (auto simp: takeWhile_append)
    next
      case no: False
      then have "py_split sep cs = [cs]"
        by (rule py_split_no_sep)
      then show ?thesis
        using False no by (auto simp: takeWhile_append)
    qed
  qed
qed

lemma task_id_of_last_segment:
  "task_id_of t = rev (takeWhile (\<lambda>c. c \<noteq> CHR ''/'') (rev (taskArn t)))"
  by (simp add: task_id_of_def last_py_split)

lemma id_A: "task_id_of task_A = ''A''"
  by code_simp

lemma id_B: "task_id_of task_B = ''B''"
  by code_simp

subsection \<open>Facts about the comparison and the string functions\<close>

lemma datetime_gt_mixed:
  "is_aware a \<noteq> is_aware b \<Longrightarrow> datetime_gt a b = Inl (TypeError cannot_compare)"
  by (cases "utcoffset a"; cases "utcoffset b")
     (simp_all add: is_aware_def datetime_gt_def datetime_cmp_def)

lemma datetime_gt_same_kind:
  "is_aware a = is_aware b \<Longrightarrow> \<exists>r. datetime_gt a b = Inr r"
  by (cases "utcoffset a"; cases "utcoffset b")
     (simp_all add: is_aware_def datetime_gt_def datetime_cmp_def Let_def)

lemma datetime_gt_same_offset:
  "utcoffset a = utcoffset b \<Longrightarrow> datetime_gt a b = Inr (field_tuple a > field_tuple b)"
  by (simp add: datetime_gt_def datetime_cmp_def)

lemma max_loop_mixed:
  "\<exists>x \<in> set xs. is_aware (key x) \<noteq> is_aware (key best)
   \<Longrightarrow> max_loop key best xs = Inl (TypeError cannot_compare)"
proof (induction xs arbitrary: best)
  case Nil
  then show ?case by simp
next
  case (Cons x xs)
  show ?case
  proof (cases "is_aware (key x) = is_aware (key best)")
    case False
    then have "datetime_gt (key x) (key best) = Inl (TypeError cannot_compare)"
      by (rule datetime_gt_mixed)
    then show ?thesis
      by simp
  next
    case True
    then obtain r where r: "datetime_gt (key x) (key best) = Inr r"
      using datetime_gt_same_kind by blast
    from Cons.prems True obtain y where y: "y \<in> set xs"
      and yk: "is_aware (key y) \<noteq> is_aware (key best)"
      by auto
    have "is_aware (key (if r then x else best)) = is_aware (key best)"
      using True by simp
    with yk have "is_aware (key y) \<noteq> is_aware (key (if r then x else best))"
      by simp
    with y have "\<exists>y \<in> set xs. is_aware (key y) \<noteq> is_aware (key (if r then x else best))"
      by (rule bexI [rotated])
    then have "max_loop key (if r then x else best) xs = Inl (TypeError cannot_compare)"
      by (rule Cons.IH)
    then show ?thesis
      using r by simp
  qed
qed

lemma key_A: "get_start_time task_A = datetime_min"
  by (simp add: get_start_time_def task_A_def)

lemma key_B: "get_start_time task_B =
   \<lparr>year = 2024, month = 1, day = 1, hour = 0, minute = 0, second = 0,
     microsecond = 0, utcoffset = Some 0\<rparr>"
  by code_simp

lemma key_C: "get_start_time task_C =
   \<lparr>year = 2024, month = 1, day = 1, hour = 0, minute = 0, second = 0,
     microsecond = 0, utcoffset = Some 0\<rparr>"
  by (simp add: get_start_time_def task_C_def)








lemma max_loop_same_offset:
  assumes "\<forall>x \<in> set (pre @ best # mid @ xs). utcoffset (key x) = off"
    and "\<forall>y \<in> set pre. field_tuple (key y) < field_tuple (key best)"
    and "\<forall>y \<in> set mid. field_tuple (key y) \<le> field_tuple (key best)"
  shows "\<exists>pre' m post. pre @ best # mid @ xs = pre' @ m # post
           \<and> max_loop key best xs = Inr m
           \<and> (\<forall>y \<in> set pre'. field_tuple (key y) < field_tuple (key m))
           \<and> (\<forall>y \<in> set post. field_tuple (key y) \<le> field_tuple (key m))"
  using assms
proof (induction xs arbitrary: pre best mid)
  case Nil
  then show ?case by auto
next
  case (Cons x xs)
  have gt: "datetime_gt (key x) (key best) = Inr (field_tuple (key x) > field_tuple (key best))"
    using Cons.prems(1) by (intro datetime_gt_same_offset) simp
  show ?case
  proof (cases "field_tuple (key x) > field_tuple (key best)")
    case True
    have a1: "\<forall>z \<in> set ((pre @ best # mid) @ x # [] @ xs). utcoffset (key z) = off"
      using Cons.prems(1) by auto
    have a2: "\<forall>y \<in> set (pre @ best # mid). field_tuple (key y) < field_tuple (key x)"
      using Cons.prems(2,3) True by (auto intro: less_trans le_less_trans)
    have a3: "\<forall>y \<in> set []. field_tuple (key y) \<le> field_tuple (key x)"
      by simp
    from Cons.IH [OF a1 a2 a3] obtain pre' m post where
      "(pre @ best # mid) @ x # [] @ xs = pre' @ m # post" "max_loop key x xs = Inr m"
      "\<forall>y \<in> set pre'. field_tuple (key y) < field_tuple (key m)"
      "\<forall>y \<in> set post. field_tuple (key y) \<le> field_tuple (key m)"
      by blast
    moreover from this have "max_loop key best (x # xs) = Inr m"
      using gt True by simp
    moreover have "pre @ best # mid @ x # xs = (pre @ best # mid) @ x # [] @ xs"
      by simp
    ultimately show ?thesis
      by metis
  next
    case False
    have a1: "\<forall>z \<in> set (pre @ best # (mid @ [x]) @ xs). utcoffset (key z) = off"
      using Cons.prems(1) by auto
    have a3: "\<forall>y \<in> set (mid @ [x]). field_tuple (key y) \<le> field_tuple (key best)"
      using Cons.prems(3) False by auto
    from Cons.IH [OF a1 Cons.prems(2) a3] obtain pre' m post where
      "pre @ best # (mid @ [x]) @ xs = pre' @ m # post" "max_loop key best xs = Inr m"
      "\<forall>y \<in> set pre'. field_tuple (key y) < field_tuple (key m)"
      "\<forall>y \<in> set post. field_tuple (key y) \<le> field_tuple (key m)"
      by blast
    moreover from this have "max_loop key best (x # xs) = Inr m"
      using gt False by simp
    moreover have "pre @ best # mid @ x # xs = pre @ best # (mid @ [x]) @ xs"
      by simp
    ultimately show ?thesis
      by metis
  qed
qed

subsection \<open>Container selection\<close>

text \<open>
  C4. When the running task has at least two different container names and no name is
  requested, the names that some definition flags essential and that the running task
  has decide: if they are exactly one name, that name is returned; otherwise the call
  raises \<^verbatim>\<open>ValueError\<close> with the "cannot be automatically determined" message, which
  lists the available names sorted and joined by a comma and a space.
\<close>

theorem essential_choice:
  assumes "2 \<le> card (container_names t)"
  shows "(\<forall>n. {m. m \<in> container_names t
                  \<and> (\<exists>d \<in> set (containerDefinitions td). essential d \<and> cd_name d = m)} = {n}
              \<longrightarrow> find_container_name t td None = Inr n)
       \<and> ((\<nexists>n. {m. m \<in> container_names t
                  \<and> (\<exists>d \<in> set (containerDefinitions td). essential d \<and> cd_name d = m)} = {n})
              \<longrightarrow> find_container_name t td None
                    = Inl (ValueError (''Container name must be specified with -c because it cannot be ''
                         @ ''automatically determined. Available containers: ''
                         @ py_join '', '' (sorted_list_of_set (container_names t)))))"
proof -
  have len: "2 \<le> length (containers t)"
    using assms card_container_names_le [of t] by linarith
  have body: "find_container_name t td None =
      (if card (essential_containers t td) = 1 then Inr (the_elem (essential_containers t td))
       else Inl (ValueError (cannot_determine t)))"
    using len by (auto simp: find_container_name_def)
  show ?thesis
    unfolding essential_containers_eq [symmetric] body cannot_determine_def
    by (auto simp: card_1_singleton_iff)
qed

theorem essential_choice_witness:
  "2 \<le> card (container_names task_two)
   \<and> find_container_name task_two td_web None = Inr ''web''
   \<and> find_container_name task_two td_both None
       = Inl (ValueError (''Container name must be specified with -c because it cannot be ''
                         @ ''automatically determined. Available containers: sidecar, web''))"
proof -
  have c: "2 \<le> card (container_names task_two)"
    by (simp add: names_two)
  have e1: "{m. m \<in> container_names task_two
                  \<and> (\<exists>d \<in> set (containerDefinitions td_web). essential d \<and> cd_name d = m)} = {''web''}"
    by (auto simp: names_two td_web_def)
  have e2: "\<nexists>n. {m. m \<in> container_names task_two
                  \<and> (\<exists>d \<in> set (containerDefinitions td_both). essential d \<and> cd_name d = m)} = {n}"
  proof
    assume "\<exists>n. {m. m \<in> container_names task_two
                  \<and> (\<exists>d \<in> set (containerDefinitions td_both). essential d \<and> cd_name d = m)} = {n}"
    then obtain n where n: "{m. m \<in> container_names task_two
                  \<and> (\<exists>d \<in> set (containerDefinitions td_both). essential d \<and> cd_name d = m)} = {n}" ..
    have "''web'' \<in> {n}" and "''sidecar'' \<in> {n}"
      unfolding n [symmetric] by (auto simp: names_two td_both_def)
    then show False by auto
  qed
  have s: "sorted_list_of_set (container_names task_two) = [''sidecar'', ''web'']"
    unfolding names_two by code_simp
  show ?thesis
    using c e1 e2 essential_choice [OF c, of td_web] essential_choice [OF c, of td_both]
    by (simp add: s)
qed

text \<open>
  C5, as amended. When a non-empty container name is requested, it is returned unchanged
  if the running task has a container of that name, whatever the task definition says;
  otherwise the call raises \<^verbatim>\<open>ValueError\<close> whose message quotes the requested name and
  lists the available names sorted and joined. (The empty string is no request: see
  \<open>empty_request_is_absent\<close>.)
\<close>

theorem requested_container:
  assumes "requested \<noteq> []"
  shows "find_container_name t td (Some requested) =
           (if requested \<in> container_names t then Inr requested
            else Inl (ValueError (''Container '' @ [apostrophe] @ requested @ [apostrophe]
                       @ '' not found in task. Available containers: ''
                       @ py_join '', '' (sorted_list_of_set (container_names t)))))"
  using assms by (simp add: find_container_name_def not_found_in_task_def)

theorem requested_container_witness:
  "''sidecar'' \<noteq> [] \<and> find_container_name task_two td_web (Some ''sidecar'') = Inr ''sidecar''
   \<and> find_container_name task_two td_web (Some ''db'')
       = Inl (ValueError (''Container '' @ [apostrophe] @ ''db'' @ [apostrophe]
                @ '' not found in task. Available containers: sidecar, web''))"
  using requested_container [of "''sidecar''" task_two td_web]
        requested_container [of "''db''" task_two td_web]
  by (simp add: names_two sorted_names_two)

text \<open>
  C5 as stated fails for the empty string: it is not a container name of the task, yet
  the call does not raise; it returns the single container.
\<close>

theorem empty_container_request_counterexample:
  "'''' \<notin> container_names task_web
   \<and> find_container_name task_web td_other (Some '''') = Inr ''web''"
  by (simp add: container_names_def find_container_name_def task_web_def)

text \<open>
  C7. With container names unique within the task and no name requested: a task without
  containers raises \<^verbatim>\<open>ValueError\<close> "No containers found in task"; a task with exactly
  one container returns that container's name, whatever the task definition says.
\<close>

theorem single_container:
  assumes "distinct (map name (containers t))"
  shows "(container_names t = {}
            \<longrightarrow> find_container_name t td None = Inl (ValueError ''No containers found in task''))
       \<and> (\<forall>n. container_names t = {n} \<longrightarrow> find_container_name t td None = Inr n)"
proof (intro conjI allI impI)
  assume "container_names t = {}"
  then have "containers t = []"
    by (simp add: container_names_def)
  then show "find_container_name t td None = Inl (ValueError ''No containers found in task'')"
    by (simp add: find_container_name_def)
next
  fix n
  assume n: "container_names t = {n}"
  have "length (containers t) = 1"
    using container_names_card_distinct [OF assms] n by simp
  then obtain c where c: "containers t = [c]"
    by (cases "containers t") auto
  with n have "name c = n"
    by (simp add: container_names_def)
  with c show "find_container_name t td None = Inr n"
    by (simp add: find_container_name_def)
qed

theorem single_container_witness:
  "distinct (map name (containers task_web)) \<and> container_names task_web = {''web''}
   \<and> find_container_name task_web td_other None = Inr ''web''"
proof -
  have d: "distinct (map name (containers task_web))"
    by (simp add: task_web_def)
  have n: "container_names task_web = {''web''}"
    by (simp add: container_names_def task_web_def)
  show ?thesis
    using d n single_container [OF d, of td_other] by simp
qed

subsection \<open>Task selection\<close>

text \<open>
  C6, as amended. For a non-empty requested id, the first task of the sequence whose
  identifier (the last segment of its ARN) equals the id is returned; if the sequence
  is not empty and no identifier equals the id, the call raises \<^verbatim>\<open>ValueError\<close> whose
  message quotes the id and lists all identifiers of the sequence sorted and joined.
\<close>

theorem requested_task:
  assumes "task_id \<noteq> []"
  shows "(\<forall>i < length tasks.
            task_id_of (tasks ! i) = task_id \<and> (\<forall>j < i. task_id_of (tasks ! j) \<noteq> task_id)
            \<longrightarrow> find_task tasks (Some task_id) = Inr (tasks ! i))
       \<and> (tasks \<noteq> [] \<and> (\<forall>t \<in> set tasks. task_id_of t \<noteq> task_id)
            \<longrightarrow> find_task tasks (Some task_id)
                  = Inl (ValueError (''Task '' @ [apostrophe] @ task_id @ [apostrophe]
                           @ '' not found. Available tasks: ''
                           @ py_join '', '' (sort (map task_id_of tasks)))))"
proof (intro conjI allI impI)
  fix i
  assume i: "i < length tasks"
    and m: "task_id_of (tasks ! i) = task_id \<and> (\<forall>j < i. task_id_of (tasks ! j) \<noteq> task_id)"
  then have "find (\<lambda>t. task_id_of t = task_id) tasks = Some (tasks ! i)"
    unfolding find_Some_iff by blast
  moreover have "tasks \<noteq> []"
    using i by auto
  ultimately show "find_task tasks (Some task_id) = Inr (tasks ! i)"
    using assms by (simp add: find_task_def)
next
  assume a: "tasks \<noteq> [] \<and> (\<forall>t \<in> set tasks. task_id_of t \<noteq> task_id)"
  then have "find (\<lambda>t. task_id_of t = task_id) tasks = None"
    unfolding find_None_iff by blast
  then show "find_task tasks (Some task_id)
                  = Inl (ValueError (''Task '' @ [apostrophe] @ task_id @ [apostrophe]
                           @ '' not found. Available tasks: ''
                           @ py_join '', '' (sort (map task_id_of tasks))))"
    using a assms by (simp add: find_task_def task_not_found_def)
qed

theorem requested_task_witness:
  "''B'' \<noteq> [] \<and> find_task [task_A, task_B] (Some ''B'') = Inr task_B
   \<and> find_task [task_A, task_B] (Some ''X'')
       = Inl (ValueError (''Task '' @ [apostrophe] @ ''X'' @ [apostrophe]
                @ '' not found. Available tasks: A, B''))"
proof -
  have s: "sort [''A'', ''B''] = [''A'', ''B'']"
    by code_simp
  have "find_task [task_A, task_B] (Some ''B'') = Inr ([task_A, task_B] ! Suc 0)"
    using requested_task [of "''B''" "[task_A, task_B]", THEN conjunct1, rule_format, of "Suc 0"]
    by (simp add: id_A id_B)
  moreover have "find_task [task_A, task_B] (Some ''X'')
       = Inl (ValueError (''Task '' @ [apostrophe] @ ''X'' @ [apostrophe]
                @ '' not found. Available tasks: A, B''))"
    using requested_task [of "''X''" "[task_A, task_B]"] by (simp add: id_A id_B s)
  ultimately show ?thesis by simp
qed

text \<open>
  C6 as stated fails for the empty string: no task has the empty identifier, yet the
  call does not raise; it returns the most recent task.
\<close>

theorem empty_task_request_counterexample:
  "task_id_of task_B \<noteq> '''' \<and> find_task [task_B] (Some '''') = Inr task_B"
  by (simp add: id_B find_task_def py_max_def)

text \<open>
  C8. On an empty task sequence \<^verbatim>\<open>find_task\<close> raises \<^verbatim>\<open>ValueError\<close> with the message
  "No running tasks found", whatever the requested id; it returns no task.
\<close>

theorem find_task_empty:
  "find_task [] task_id = Inl (ValueError ''No running tasks found'')"
  by (simp add: find_task_def)


subsection \<open>The most recent task\<close>

text \<open>
  C1. The claim is that a task without start timestamp loses to a task with a real
  one. The code does not get that far: \<^verbatim>\<open>datetime.min\<close>, the key of a missing or
  unparsable timestamp, is offset-naive, the key of a real timestamp (a \<^verbatim>\<open>Z\<close> string,
  or the value the API client returns) is offset-aware, and \<^verbatim>\<open>max\<close> compares the two.
  Whenever the sequence has a task with an offset-naive key and a task with an
  offset-aware key, the call raises \<^verbatim>\<open>TypeError\<close>; the example of the claim is the
  witness.
\<close>

theorem find_task_mixed_raises:
  assumes "t \<in> set tasks" and "u \<in> set tasks"
    and "\<not> is_aware (get_start_time t)" and "is_aware (get_start_time u)"
  shows "find_task tasks None = Inl (TypeError cannot_compare)"
proof -
  obtain first rest where tasks: "tasks = first # rest"
    using assms(1) by (cases tasks) auto
  have "\<exists>x \<in> set rest. is_aware (get_start_time x) \<noteq> is_aware (get_start_time first)"
  proof (cases "is_aware (get_start_time first)")
    case True
    with assms(3) have "t \<noteq> first" by auto
    with assms(1) tasks have "t \<in> set rest" by simp
    moreover have "is_aware (get_start_time t) \<noteq> is_aware (get_start_time first)"
      using True assms(3) by simp
    ultimately show ?thesis by (rule bexI [rotated])
  next
    case False
    with assms(4) have "u \<noteq> first" by auto
    with assms(2) tasks have "u \<in> set rest" by simp
    moreover have "is_aware (get_start_time u) \<noteq> is_aware (get_start_time first)"
      using False assms(4) by simp
    ultimately show ?thesis by (rule bexI [rotated])
  qed
  then have "max_loop get_start_time first rest = Inl (TypeError cannot_compare)"
    by (rule max_loop_mixed)
  then show ?thesis
    by (simp add: find_task_def py_max_def tasks)
qed

theorem find_task_mixed_raises_witness:
  "task_A \<in> set [task_A, task_B] \<and> task_B \<in> set [task_A, task_B]
   \<and> startedAt task_A = None \<and> startedAt task_B = Some (PyStr ''2024-01-01T00:00:00Z'')
   \<and> \<not> is_aware (get_start_time task_A) \<and> is_aware (get_start_time task_B)
   \<and> find_task [task_A, task_B] None = Inl (TypeError cannot_compare)"
proof -
  have "startedAt task_A = None" and "startedAt task_B = Some (PyStr ''2024-01-01T00:00:00Z'')"
    by (simp_all add: task_A_def task_B_def)
  moreover have "\<not> is_aware (get_start_time task_A)" and "is_aware (get_start_time task_B)"
    by (simp_all add: key_A key_B datetime_min_def is_aware_def)
  ultimately show ?thesis
    using find_task_mixed_raises [of task_A "[task_A, task_B]" task_B] by simp
qed

text \<open>
  C2. The claim is that on every non-empty sequence the first task with the greatest
  key is returned. With a task whose timestamp is an offset-aware \<^verbatim>\<open>datetime\<close> followed
  by a task without timestamp, the call raises \<^verbatim>\<open>TypeError\<close> instead.
\<close>

theorem real_then_absent_timestamp_raises:
  "find_task [task_C, task_A] None = Inl (TypeError cannot_compare)"
  by code_simp

text \<open>
  Where the keys can be compared the claim holds: when all keys have the same offset
  (all timestamps missing, or all in UTC) the task returned has a greatest key and
  every task before it has a strictly smaller one; when every timestamp is missing the
  first task is returned.
\<close>

lemma find_task_most_recent:
  assumes "tasks \<noteq> []" and "\<forall>t \<in> set tasks. utcoffset (get_start_time t) = off"
  shows "\<exists>pre m post. tasks = pre @ m # post \<and> find_task tasks None = Inr m
           \<and> (\<forall>y \<in> set pre. field_tuple (get_start_time y) < field_tuple (get_start_time m))
           \<and> (\<forall>y \<in> set post. field_tuple (get_start_time y) \<le> field_tuple (get_start_time m))"
proof -
  obtain first rest where tasks: "tasks = first # rest"
    using assms(1) by (cases tasks) auto
  have "\<exists>pre' m post. first # rest = pre' @ m # post
           \<and> max_loop get_start_time first rest = Inr m
           \<and> (\<forall>y \<in> set pre'. field_tuple (get_start_time y) < field_tuple (get_start_time m))
           \<and> (\<forall>y \<in> set post. field_tuple (get_start_time y) \<le> field_tuple (get_start_time m))"
    using max_loop_same_offset [of "[]" first "[]" rest get_start_time off] assms(2) tasks
    by simp
  then obtain pre' m post where split: "first # rest = pre' @ m # post"
    and loop: "max_loop get_start_time first rest = Inr m"
    and before: "\<forall>y \<in> set pre'. field_tuple (get_start_time y) < field_tuple (get_start_time m)"
    and after: "\<forall>y \<in> set post. field_tuple (get_start_time y) \<le> field_tuple (get_start_time m)"
    by blast
  from loop have "find_task (first # rest) None = Inr m"
    by (simp add: find_task_def py_max_def)
  with split before after show ?thesis
    unfolding tasks by blast
qed

lemma find_task_all_missing:
  assumes "\<forall>t \<in> set (first # rest). startedAt t = None"
  shows "find_task (first # rest) None = Inr first"
proof -
  have k: "\<forall>t \<in> set (first # rest). get_start_time t = datetime_min"
    using assms by (simp add: get_start_time_def)
  then have "\<forall>t \<in> set (first # rest). utcoffset (get_start_time t) = None"
    by (simp add: datetime_min_def)
  from find_task_most_recent [OF _ this] obtain pre m post where
    p: "first # rest = pre @ m # post" "find_task (first # rest) None = Inr m"
    "\<forall>y \<in> set pre. field_tuple (get_start_time y) < field_tuple (get_start_time m)"
    by auto
  have "pre = []"
  proof (rule ccontr)
    assume "pre \<noteq> []"
    then obtain y where y: "y \<in> set pre"
      by (cases pre) auto
    with p(1) have "y \<in> set (first # rest)" and "m \<in> set (first # rest)"
      by (metis in_set_conv_decomp Un_iff set_append, metis in_set_conv_decomp)
    with k have "get_start_time y = get_start_time m"
      by auto
    with p(3) y show False
      by auto
  qed
  with p(1,2) show ?thesis
    by simp
qed

subsection \<open>Normalization of the start timestamp\<close>





end
